theory Spec2Isabelle
  imports Main
begin

section \<open>colorlog: levels, modes and colour attributes\<close>

text \<open>
  The embedding follows \<^verbatim>\<open>include/colorlog.hpp\<close> (the non-Windows branch of its
  conditional compilation). \<^verbatim>\<open>enum class LogLevel\<close> lists its enumerators in the
  order below; \<open>rank\<close> is \<^verbatim>\<open>static_cast<int>(level)\<close>. A data member that the
  source spells with a trailing underscore (\<^verbatim>\<open>log_level_\<close>) is spelled with a trailing
  \<open>_m\<close> here (\<open>log_level_m\<close>).
\<close>

datatype LogLevel = debug | info | warn | error | fatal | trace | unknown

fun rank :: "LogLevel \<Rightarrow> int" where
  "rank debug = 0"
| "rank info = 1"
| "rank warn = 2"
| "rank error = 3"
| "rank fatal = 4"
| "rank trace = 5"
| "rank unknown = 6"

datatype OutputMode = Console | File | Both

text \<open>The preprocessor constants \<^verbatim>\<open>LOG_LEVEL_DEBUG\<close> ... \<^verbatim>\<open>LOG_LEVEL_TRACE\<close>. The macro
  \<^verbatim>\<open>LOG_LEVEL\<close> itself is fixed at compile time (default \<^verbatim>\<open>LOG_LEVEL_DEBUG\<close>); every
  function that reads it takes it as its first argument.\<close>

definition LOG_LEVEL_DEBUG :: int where "LOG_LEVEL_DEBUG = 0"
definition LOG_LEVEL_INFO :: int where "LOG_LEVEL_INFO = 1"
definition LOG_LEVEL_WARN :: int where "LOG_LEVEL_WARN = 2"
definition LOG_LEVEL_ERROR :: int where "LOG_LEVEL_ERROR = 3"
definition LOG_LEVEL_FATAL :: int where "LOG_LEVEL_FATAL = 4"
definition LOG_LEVEL_TRACE :: int where "LOG_LEVEL_TRACE = 5"

definition ESC :: char where "ESC = CHR 0x1B"

definition endl :: string where "endl = [CHR 0x0A]"

record ColorAttr =
  code :: string

definition ColorDefs_debug :: ColorAttr where "ColorDefs_debug = \<lparr>code = ESC # ''[36m''\<rparr>"
definition ColorDefs_info :: ColorAttr where "ColorDefs_info = \<lparr>code = ESC # ''[1;33m''\<rparr>"
definition ColorDefs_warn :: ColorAttr where "ColorDefs_warn = \<lparr>code = ESC # ''[33m''\<rparr>"
definition ColorDefs_error :: ColorAttr where "ColorDefs_error = \<lparr>code = ESC # ''[1;31m''\<rparr>"
definition ColorDefs_fatal :: ColorAttr where "ColorDefs_fatal = \<lparr>code = ESC # ''[35m''\<rparr>"
definition ColorDefs_trace :: ColorAttr where "ColorDefs_trace = \<lparr>code = ESC # ''[32m''\<rparr>"
definition ColorDefs_unknown :: ColorAttr where "ColorDefs_unknown = \<lparr>code = ESC # ''[34m''\<rparr>"

fun default_colors :: "LogLevel \<Rightarrow> ColorAttr" where
  "default_colors debug = ColorDefs_debug"
| "default_colors info = ColorDefs_info"
| "default_colors warn = ColorDefs_warn"
| "default_colors error = ColorDefs_error"
| "default_colors fatal = ColorDefs_fatal"
| "default_colors trace = ColorDefs_trace"
| "default_colors unknown = ColorDefs_unknown"

fun logLevelToString :: "LogLevel \<Rightarrow> string" where
  "logLevelToString debug = ''DEBUG''"
| "logLevelToString info = ''INFO''"
| "logLevelToString warn = ''WARNING''"
| "logLevelToString error = ''ERROR''"
| "logLevelToString fatal = ''FATAL''"
| "logLevelToString trace = ''TRACE''"
| "logLevelToString unknown = ''UNKNOWN''"

section \<open>Exceptions\<close>

text \<open>
  A \<^verbatim>\<open>std::exception\<close> object is its dynamic type name (\<^verbatim>\<open>typeid(e).name()\<close>) and
  its \<^verbatim>\<open>what()\<close> text. A C++ \<^verbatim>\<open>throw\<close> may raise any object: \<open>StdException\<close> is one
  whose type derives from \<^verbatim>\<open>std::exception\<close> (the only kind that
  \<^verbatim>\<open>catch (const std::exception&)\<close> matches), \<open>NonStdThrow\<close> is any other.
  A computation that may throw returns \<open>thrown + 'a\<close>.
\<close>

datatype cpp_exception = Exception (type_name: string) (what: string)

datatype thrown = StdException cpp_exception | NonStdThrow

section \<open>The process environment: streams, files, terminal cache\<close>

text \<open>
  \<open>cout\<close> and \<open>cerr\<close> hold the bytes written so far to the two standard streams,
  \<open>files\<close> the contents of the file system by path, \<open>openable\<close> says whether the
  operating system would let a path be opened for appending. \<open>is_global_colored\<close> is
  the namespace-level flag; the two \<open>is_..._terminal_m\<close> fields are the \<^verbatim>\<open>TerminalCache\<close>
  singleton. \<open>backtrace_symbols\<close> stands for what \<^verbatim>\<open>backtrace_symbols\<close> returns.
\<close>

record world =
  is_global_colored :: bool
  is_stdout_terminal_m :: bool
  is_stderr_terminal_m :: bool
  cout :: string
  cerr :: string
  files :: "string \<rightharpoonup> string"
  openable :: "string \<Rightarrow> bool"
  backtrace_symbols :: "string list"

text \<open>The identity of a \<^verbatim>\<open>std::ostream&\<close>: the code compares stream addresses.\<close>

datatype ostream = Cout | Cerr | LogFile

fun is_terminal :: "world \<Rightarrow> ostream \<Rightarrow> bool" where
  "is_terminal w Cout = is_stdout_terminal_m w"
| "is_terminal w Cerr = is_stderr_terminal_m w"
| "is_terminal w LogFile = False"

definition check_color :: "world \<Rightarrow> ostream \<Rightarrow> bool" where
  "check_color w stream = (is_global_colored w \<and> is_terminal w stream)"

subsection \<open>\<^verbatim>\<open>std::ofstream\<close>\<close>

text \<open>
  The standard library's file stream, as far as the logger uses it:
  \<^item> \<^verbatim>\<open>open\<close> calls \<^verbatim>\<open>rdbuf()->open\<close>, which returns a null pointer when the buffer
    is already open (and leaves it as it is) or when the file cannot be opened; on
    a null pointer \<^verbatim>\<open>open\<close> calls \<^verbatim>\<open>setstate(failbit)\<close>, otherwise \<^verbatim>\<open>clear()\<close>;
  \<^item> with \<^verbatim>\<open>ios::out | ios::app\<close> a missing file is created, an existing one keeps its
    contents, and every write goes to the end of the file;
  \<^item> an output operation on a stream that is not \<^verbatim>\<open>good()\<close> writes nothing.
  The logger never enables the stream's exception mask, so no stream operation throws.
\<close>

record ofstream =
  open_path :: "string option"
  failbit :: bool

definition ofstream_init :: ofstream where
  "ofstream_init = \<lparr>open_path = None, failbit = False\<rparr>"

definition is_open :: "ofstream \<Rightarrow> bool" where
  "is_open f = (open_path f \<noteq> None)"

definition file_content :: "world \<Rightarrow> string \<Rightarrow> string" where
  "file_content w p = (case files w p of None \<Rightarrow> [] | Some c \<Rightarrow> c)"

definition ofstream_open :: "ofstream \<Rightarrow> string \<Rightarrow> world \<Rightarrow> ofstream \<times> world" where
  "ofstream_open f filename w =
     (if is_open f then (f\<lparr>failbit := True\<rparr>, w)
      else if openable w filename
        then (f\<lparr>open_path := Some filename, failbit := False\<rparr>,
              w\<lparr>files := (files w)(filename \<mapsto> file_content w filename)\<rparr>)
        else (f\<lparr>failbit := True\<rparr>, w))"

text \<open>\<open>put f os s\<close> is \<^verbatim>\<open>os << s\<close>, where \<open>f\<close> is the state of the file stream
  behind \<open>LogFile\<close>. Each line the logger writes ends with \<^verbatim>\<open>std::endl\<close>, which flushes, so
  what is written is in the file when the call returns. A write to a stream that is not
  open has no effect on any file (\<^verbatim>\<open>Logger::log\<close> guards both of its file writes with
  \<^verbatim>\<open>is_open()\<close>).\<close>

fun put :: "ofstream \<Rightarrow> ostream \<Rightarrow> string \<Rightarrow> world \<Rightarrow> world" where
  "put f Cout s w = w\<lparr>cout := cout w @ s\<rparr>"
| "put f Cerr s w = w\<lparr>cerr := cerr w @ s\<rparr>"
| "put f LogFile s w =
     (case open_path f of
        None \<Rightarrow> w
      | Some p \<Rightarrow> if failbit f then w
                  else w\<lparr>files := (files w)(p \<mapsto> file_content w p @ s)\<rparr>)"

section \<open>Messages and their rendering\<close>

text \<open>
  \<^verbatim>\<open>operator<<\<close> on an \<^verbatim>\<open>int\<close>: the decimal digits, with a leading minus sign.
\<close>

definition digit_char :: "nat \<Rightarrow> char" where
  "digit_char d = ''0123456789'' ! (d mod 10)"

function show_nat :: "nat \<Rightarrow> string" where
  "show_nat n = (if n < 10 then [digit_char n] else show_nat (n div 10) @ [digit_char n])"
  by pat_completeness auto
termination
  by (relation "measure id") auto

declare show_nat.simps [simp del]

definition show_int :: "int \<Rightarrow> string" where
  "show_int i = (if i < 0 then CHR ''-'' # show_nat (nat (- i)) else show_nat (nat i))"

text \<open>
  The argument types \<open>T\<close> that \<^verbatim>\<open>Logger::log\<close> is instantiated with:
  \<^verbatim>\<open>std::string\<close>, a C string (\<^verbatim>\<open>const char*\<close> or a character array, as
  \<^verbatim>\<open>e.what()\<close> and string literals are), a container of printable items, and a
  printable object of a type of the program's own. The \<^verbatim>\<open>operator<<\<close> of such a type is
  code of the caller: \<open>UserItem r\<close> and \<open>UserPrintable r\<close> carry what it does, \<open>Inr t\<close> when
  it inserts the text \<open>t\<close> and \<open>Inl x\<close> when it throws \<open>x\<close>.
  \<open>Iterable\<close> is the concept of that name: the type has \<^verbatim>\<open>begin()\<close> and \<^verbatim>\<open>end()\<close>.
\<close>

datatype item = CharItem char | StringItem string | IntItem int | UserItem "thrown + string"

datatype message =
  StdString string | CString string | Container "item list" | UserPrintable "thrown + string"

fun Iterable :: "message \<Rightarrow> bool" where
  "Iterable (StdString s) = True"
| "Iterable (CString s) = False"
| "Iterable (Container xs) = True"
| "Iterable (UserPrintable r) = False"

fun items :: "message \<Rightarrow> item list" where
  "items (StdString s) = map CharItem s"
| "items (CString s) = []"
| "items (Container xs) = xs"
| "items (UserPrintable r) = []"

text \<open>\<^verbatim>\<open>oss << item\<close> and \<^verbatim>\<open>oss << msg\<close>, on the text \<open>oss\<close> collected so far.\<close>

fun put_item :: "string \<Rightarrow> item \<Rightarrow> thrown + string" where
  "put_item oss (CharItem c) = Inr (oss @ [c])"
| "put_item oss (StringItem s) = Inr (oss @ s)"
| "put_item oss (IntItem i) = Inr (oss @ show_int i)"
| "put_item oss (UserItem r) = (case r of Inl x \<Rightarrow> Inl x | Inr t \<Rightarrow> Inr (oss @ t))"

fun put_message :: "string \<Rightarrow> message \<Rightarrow> thrown + string" where
  "put_message oss (StdString s) = Inr (oss @ s)"
| "put_message oss (CString s) = Inr (oss @ s)"
| "put_message oss (Container xs) = Inr oss"
| "put_message oss (UserPrintable r) = (case r of Inl x \<Rightarrow> Inl x | Inr t \<Rightarrow> Inr (oss @ t))"

text \<open>The loop \<^verbatim>\<open>for (const auto& item : msg) oss << item;\<close>: an exception thrown by
  an item ends it.\<close>

fun render_items :: "string \<Rightarrow> item list \<Rightarrow> thrown + string" where
  "render_items oss [] = Inr oss"
| "render_items oss (x # xs) =
     (case put_item oss x of Inl t \<Rightarrow> Inl t | Inr oss' \<Rightarrow> render_items oss' xs)"

text \<open>The first statements of the \<^verbatim>\<open>try\<close> block of \<^verbatim>\<open>Logger::log\<close>: the loop when \<open>T\<close> is
  iterable, \<^verbatim>\<open>oss << msg\<close> otherwise (the equation of \<open>put_message\<close> for a container is
  never reached: a container is iterable). The result is \<^verbatim>\<open>oss.str()\<close>, or the
  exception that left an \<^verbatim>\<open>operator<<\<close>.\<close>

definition render :: "message \<Rightarrow> thrown + string" where
  "render msg = (if Iterable msg then render_items [] (items msg) else put_message [] msg)"

section \<open>Logger\<close>

type_synonym LogFormatter = "LogLevel \<Rightarrow> string \<Rightarrow> int \<Rightarrow> string \<Rightarrow> thrown + string"

type_synonym handler = "cpp_exception \<Rightarrow> world \<Rightarrow> thrown + world"

record LoggerConfig =
  log_level :: LogLevel
  output_mode :: OutputMode
  log_file_name :: string
  formatter :: LogFormatter

definition default_formatter :: LogFormatter where
  "default_formatter lvl file line msg =
     Inr ((if file \<noteq> [] \<and> line > 0 then file @ '':'' @ show_int line @ '' '' else []) @ msg)"

definition LoggerConfig_default :: LoggerConfig where
  "LoggerConfig_default =
     \<lparr>log_level = info, output_mode = Console, log_file_name = [], formatter = default_formatter\<rparr>"

record Logger =
  log_level_m :: LogLevel
  output_mode_m :: OutputMode
  formatter_m :: LogFormatter
  log_level_colors_m :: "LogLevel \<Rightarrow> ColorAttr"
  log_file_m :: ofstream
  handlers_m :: "string \<rightharpoonup> handler"
  default_handler_m :: handler

definition unhandled_exception_handler :: handler where
  "unhandled_exception_handler e w =
     Inr (put ofstream_init Cerr (''Unhandled exception: '' @ what e @ endl) w)"

definition Logger_ctor :: "LoggerConfig \<Rightarrow> world \<Rightarrow> Logger \<times> world" where
  "Logger_ctor config w =
     (let lg = \<lparr>log_level_m = log_level config,
                output_mode_m = output_mode config,
                formatter_m = formatter config,
                log_level_colors_m = default_colors,
                log_file_m = ofstream_init,
                handlers_m = Map.empty,
                default_handler_m = unhandled_exception_handler\<rparr>
      in if log_file_name config \<noteq> []
         then (case ofstream_open (log_file_m lg) (log_file_name config) w of
                 (f, w') \<Rightarrow> (lg\<lparr>log_file_m := f\<rparr>, w'))
         else (lg, w))"

definition set_log_level :: "LogLevel \<Rightarrow> Logger \<Rightarrow> Logger" where
  "set_log_level level lg = lg\<lparr>log_level_m := level\<rparr>"

definition set_log_level_color :: "LogLevel \<Rightarrow> string \<Rightarrow> Logger \<Rightarrow> Logger" where
  "set_log_level_color level color lg =
     lg\<lparr>log_level_colors_m := (log_level_colors_m lg)(level := (log_level_colors_m lg level)\<lparr>code := color\<rparr>)\<rparr>"

definition set_output_mode :: "OutputMode \<Rightarrow> Logger \<Rightarrow> Logger" where
  "set_output_mode mode lg = lg\<lparr>output_mode_m := mode\<rparr>"

definition set_log_file :: "string \<Rightarrow> Logger \<Rightarrow> world \<Rightarrow> Logger \<times> world" where
  "set_log_file filename lg w =
     (case ofstream_open (log_file_m lg) filename w of (f, w') \<Rightarrow> (lg\<lparr>log_file_m := f\<rparr>, w'))"

definition set_formatter :: "LogFormatter \<Rightarrow> Logger \<Rightarrow> Logger" where
  "set_formatter fmt lg = lg\<lparr>formatter_m := fmt\<rparr>"

definition register_error_handler :: "string \<Rightarrow> handler \<Rightarrow> Logger \<Rightarrow> Logger" where
  "register_error_handler exception_type h lg = lg\<lparr>handlers_m := (handlers_m lg)(exception_type \<mapsto> h)\<rparr>"

definition set_default_error_handler :: "handler \<Rightarrow> Logger \<Rightarrow> Logger" where
  "set_default_error_handler h lg = lg\<lparr>default_handler_m := h\<rparr>"

definition getLogStream :: "Logger \<Rightarrow> ostream" where
  "getLogStream lg =
     (if output_mode_m lg = File \<and> is_open (log_file_m lg) then LogFile
      else if output_mode_m lg = Both \<and> is_open (log_file_m lg) then LogFile
      else Cerr)"

definition apply_code :: "ofstream \<Rightarrow> ostream \<Rightarrow> string \<Rightarrow> world \<Rightarrow> world" where
  "apply_code f stream c w = (if check_color w stream then put f stream c w else w)"

definition applyLogLevelColor :: "Logger \<Rightarrow> ostream \<Rightarrow> LogLevel \<Rightarrow> world \<Rightarrow> world" where
  "applyLogLevelColor lg os level w = apply_code (log_file_m lg) os (code (log_level_colors_m lg level)) w"

text \<open>
  The body of the \<^verbatim>\<open>try\<close> block of \<^verbatim>\<open>Logger::log\<close>. The rendering of the message and
  the formatter are the calls that can throw, and both run before the first write.
\<close>

definition log_try :: "Logger \<Rightarrow> LogLevel \<Rightarrow> string \<Rightarrow> int \<Rightarrow> message \<Rightarrow> world \<Rightarrow> thrown + world" where
  "log_try lg level file line msg w =
     (case render msg of
        Inl t \<Rightarrow> Inl t
      | Inr rendered \<Rightarrow>
     (case formatter_m lg level file line rendered of
        Inl t \<Rightarrow> Inl t
      | Inr formattedMsg \<Rightarrow>
          (let logStream = getLogStream lg;
               f = log_file_m lg;
               w1 = put f logStream ''['' w;
               w2 = (if check_color w1 logStream
                     then put f logStream (ESC # ''[0m'')
                            (put f logStream (logLevelToString level)
                               (applyLogLevelColor lg logStream level w1))
                     else put f logStream (logLevelToString level) w1);
               w3 = put f logStream endl (put f logStream formattedMsg (put f logStream ''] '' w2));
               w4 = (if output_mode_m lg = Both \<and> is_open f
                     then put f LogFile endl
                            (put f LogFile formattedMsg
                               (put f LogFile ''] ''
                                  (put f LogFile (logLevelToString level)
                                     (put f LogFile ''['' w3))))
                     else w3)
           in Inr w4)))"

text \<open>
  \<^verbatim>\<open>Logger::log\<close>: the compile-time floor, then the \<^verbatim>\<open>try\<close> block with its handler
  \<^verbatim>\<open>catch (const std::exception& e)\<close>. An object that is not a \<^verbatim>\<open>std::exception\<close>
  leaves the function.
\<close>

definition Logger_log ::
  "int \<Rightarrow> Logger \<Rightarrow> LogLevel \<Rightarrow> string \<Rightarrow> int \<Rightarrow> message \<Rightarrow> world \<Rightarrow> thrown + world" where
  "Logger_log LOG_LEVEL lg level file line msg w =
     (if rank level < LOG_LEVEL then Inr w
      else case log_try lg level file line msg w of
             Inl (StdException e) \<Rightarrow> Inr (put (log_file_m lg) Cerr (''Logging exception: '' @ what e @ endl) w)
           | Inl NonStdThrow \<Rightarrow> Inl NonStdThrow
           | Inr w' \<Rightarrow> Inr w')"

text \<open>The overload \<^verbatim>\<open>error(file, line, msg)\<close>.\<close>

definition Logger_error :: "int \<Rightarrow> Logger \<Rightarrow> string \<Rightarrow> int \<Rightarrow> message \<Rightarrow> world \<Rightarrow> thrown + world" where
  "Logger_error LOG_LEVEL lg file line msg w = Logger_log LOG_LEVEL lg error file line msg w"

definition log_stack_trace :: "Logger \<Rightarrow> world \<Rightarrow> world" where
  "log_stack_trace lg w =
     foldl (\<lambda>w' m. put (log_file_m lg) Cerr endl (put (log_file_m lg) Cerr m w'))
       (put (log_file_m lg) Cerr endl (put (log_file_m lg) Cerr ''Stack trace:'' w))
       (backtrace_symbols w)"

text \<open>\<^verbatim>\<open>handle_error\<close> passes \<^verbatim>\<open>context\<close> in the position of the file name, with
  line \<open>0\<close>, and \<^verbatim>\<open>e.what()\<close> (a C string) as the message.\<close>

definition handle_error :: "int \<Rightarrow> Logger \<Rightarrow> cpp_exception \<Rightarrow> string \<Rightarrow> world \<Rightarrow> thrown + world" where
  "handle_error LOG_LEVEL lg e context w =
     (case Logger_error LOG_LEVEL lg context 0 (CString (what e)) w of
        Inl t \<Rightarrow> Inl t
      | Inr w1 \<Rightarrow>
          (let w2 = log_stack_trace lg w1
           in case handlers_m lg (type_name e) of
                Some h \<Rightarrow> h e w2
              | None \<Rightarrow> default_handler_m lg e w2))"

section \<open>AsyncLogger\<close>

record LogEntry =
  level :: LogLevel
  "file" :: string
  line :: int
  msg :: string










section \<open>The two shapes of an output line\<close>

text \<open>
  A plain line is \<^verbatim>\<open>[LEVEL] text\<close> and a newline. A decorated line has the level's colour
  code before the level name and the reset sequence \<^verbatim>\<open>ESC[0m\<close> after it.
\<close>

definition plain_line :: "LogLevel \<Rightarrow> string \<Rightarrow> string" where
  "plain_line lvl body = ''['' @ logLevelToString lvl @ ''] '' @ body @ endl"

definition decorated_line :: "Logger \<Rightarrow> LogLevel \<Rightarrow> string \<Rightarrow> string" where
  "decorated_line lg lvl body =
     ''['' @ code (log_level_colors_m lg lvl) @ logLevelToString lvl @ (ESC # ''[0m'') @ ''] '' @ body @ endl"

text \<open>What an accepted record with formatted text \<open>body\<close> adds to the sinks: a line
  on the error stream when that is the selected stream, otherwise one plain line on
  the file stream, and a second one in Both mode.\<close>

definition emit :: "Logger \<Rightarrow> LogLevel \<Rightarrow> string \<Rightarrow> world \<Rightarrow> world" where
  "emit lg lvl body w =
     (if getLogStream lg = Cerr
      then put (log_file_m lg) Cerr
             (if check_color w Cerr then decorated_line lg lvl body else plain_line lvl body) w
      else put (log_file_m lg) LogFile
             (plain_line lvl body @ (if output_mode_m lg = Both then plain_line lvl body else [])) w)"

section \<open>Concrete loggers and environments\<close>

text \<open>An environment with nothing written yet, standard streams that are not
  terminals, an empty file system and every path openable.\<close>

definition world0 :: world where
  "world0 = \<lparr>is_global_colored = True, is_stdout_terminal_m = False, is_stderr_terminal_m = False,
              cout = [], cerr = [], files = Map.empty, openable = (\<lambda>p. True),
              backtrace_symbols = []\<rparr>"

definition default_logger :: Logger where
  "default_logger = fst (Logger_ctor LoggerConfig_default world0)"

definition error_threshold_logger :: Logger where
  "error_threshold_logger = set_log_level error default_logger"

text \<open>A formatter that throws an object whose type does not derive from
  \<^verbatim>\<open>std::exception\<close> (\<^verbatim>\<open>throw 42;\<close>), and one that throws a \<^verbatim>\<open>std::runtime_error\<close>.\<close>

definition int_throwing_formatter :: LogFormatter where
  "int_throwing_formatter lvl f l m = Inl NonStdThrow"

definition runtime_error_formatter :: LogFormatter where
  "runtime_error_formatter lvl f l m = Inl (StdException (Exception ''St13runtime_error'' ''bad format''))"

definition boom :: cpp_exception where
  "boom = Exception ''St13runtime_error'' ''boom''"

text \<open>The same environment with the error stream on a terminal.\<close>

definition terminal_world :: world where
  "terminal_world = world0\<lparr>is_stderr_terminal_m := True\<rparr>"

definition file_config :: LoggerConfig where
  "file_config = LoggerConfig_default\<lparr>output_mode := File, log_file_name := ''a.log''\<rparr>"

definition both_config :: LoggerConfig where
  "both_config = LoggerConfig_default\<lparr>output_mode := Both, log_file_name := ''t.log''\<rparr>"

text \<open>The handler of the test program \<^verbatim>\<open>tests/colorlog_async_test.cpp\<close>.\<close>

definition custom_error_handler :: handler where
  "custom_error_handler e w =
     Inr (put ofstream_init Cerr (''Custom handler caught exception: '' @ what e @ endl) w)"


text \<open>A logger in File mode on \<^verbatim>\<open>a.log\<close> and one in Both mode on \<^verbatim>\<open>t.log\<close>, each with
  the environment its constructor leaves.\<close>

definition file_logger :: Logger where
  "file_logger = fst (Logger_ctor file_config world0)"

definition file_world :: world where
  "file_world = snd (Logger_ctor file_config world0)"

definition both_logger :: Logger where
  "both_logger = fst (Logger_ctor both_config world0)"

definition both_world :: world where
  "both_world = snd (Logger_ctor both_config world0)"

text \<open>A logger in File mode on \<^verbatim>\<open>a.log\<close> logs one record, \<^verbatim>\<open>set_log_file(path)\<close> is
  called, and a second record is logged.\<close>

definition reopen_scenario :: "string \<Rightarrow> Logger \<times> (thrown + world)" where
  "reopen_scenario path =
     (case Logger_ctor file_config world0 of
        (lg, w) \<Rightarrow>
          (case Logger_log LOG_LEVEL_DEBUG lg info [] 0 (StdString ''first'') w of
             Inl t \<Rightarrow> (lg, Inl t)
           | Inr w1 \<Rightarrow>
               (case set_log_file path lg w1 of
                  (lg', w2) \<Rightarrow> (lg', Logger_log LOG_LEVEL_DEBUG lg' info [] 0 (StdString ''second'') w2))))"

text \<open>A logger whose formatter throws an \<^verbatim>\<open>int\<close>, the same logger with the test
  program's handler registered for \<^verbatim>\<open>std::runtime_error\<close>, and the configuration that
  yields the former.\<close>

definition int_throwing_logger :: Logger where
  "int_throwing_logger = set_formatter int_throwing_formatter default_logger"

definition handled_int_throwing_logger :: Logger where
  "handled_int_throwing_logger =
     register_error_handler ''St13runtime_error'' custom_error_handler int_throwing_logger"


text \<open>A container whose second element has an \<^verbatim>\<open>operator<<\<close> that throws a
  \<^verbatim>\<open>std::runtime_error\<close>.\<close>

definition throwing_container :: message where
  "throwing_container =
     Container [StringItem ''ab'', UserItem (Inl (StdException (Exception ''St13runtime_error'' ''bad item'')))]"

section \<open>Level ranks\<close>

lemma rank_ge_0: "0 \<le> rank L"
  by (cases L) simp_all

text \<open>
  C9 (as amended). The enumerators have the ranks 0 to 6 in the order debug, info, warn,
  error, fatal, trace, unknown, so debug is the lowest level and trace ranks above
  fatal. The constants \<^verbatim>\<open>LOG_LEVEL_DEBUG\<close> ... \<^verbatim>\<open>LOG_LEVEL_TRACE\<close> are these ranks, and the
  filter of \<^verbatim>\<open>Logger::log\<close> follows the rank: when a level is dropped, every level of a
  lower or equal rank is dropped as well.
\<close>

theorem LogLevel_rank_order:
  "map rank [debug, info, warn, error, fatal, trace, unknown] = [0, 1, 2, 3, 4, 5, 6]
   \<and> [LOG_LEVEL_DEBUG, LOG_LEVEL_INFO, LOG_LEVEL_WARN, LOG_LEVEL_ERROR, LOG_LEVEL_FATAL, LOG_LEVEL_TRACE]
       = map rank [debug, info, warn, error, fatal, trace]
   \<and> rank debug \<le> rank L
   \<and> (rank L' \<le> rank L \<and> rank L < F \<longrightarrow> Logger_log F lg L' f l m w = Inr w)"
  by (simp add: LOG_LEVEL_DEBUG_def LOG_LEVEL_INFO_def LOG_LEVEL_WARN_def LOG_LEVEL_ERROR_def
      LOG_LEVEL_FATAL_def LOG_LEVEL_TRACE_def rank_ge_0 Logger_log_def)

theorem LogLevel_rank_order_witness:
  "rank debug \<le> rank warn \<and> rank warn < LOG_LEVEL_ERROR
   \<and> Logger_log LOG_LEVEL_ERROR default_logger debug [] 0 (StdString ''hi'') world0 = Inr world0"
  using LogLevel_rank_order [of warn debug LOG_LEVEL_ERROR default_logger "[]" 0 "StdString ''hi''" world0]
  by (simp add: LOG_LEVEL_ERROR_def)

text \<open>The claim as written puts trace at the bottom of the order; in the enumeration
  debug and fatal are both below trace.\<close>

theorem trace_not_lowest_counterexample:
  "\<not> (rank trace < rank debug \<and> rank debug < rank info \<and> rank info < rank warn
      \<and> rank warn < rank error \<and> rank error < rank fatal \<and> rank fatal < rank unknown)"
  by simp

section \<open>Rendering\<close>

lemma render_items_chars: "render_items acc (map CharItem s) = Inr (acc @ s)"
  by (induction s arbitrary: acc) simp_all

lemma render_items_strings: "render_items acc (map StringItem ss) = Inr (acc @ concat ss)"
  by (induction ss arbitrary: acc) simp_all

lemma render_StdString: "render (StdString s) = Inr s"
  by (simp add: render_def render_items_chars)

lemma render_CString: "render (CString s) = Inr s"
  by (simp add: render_def)

lemma render_char_Container: "render (Container (map CharItem s)) = Inr s"
  by (simp add: render_def render_items_chars)

lemma render_string_Container: "render (Container (map StringItem ss)) = Inr (concat ss)"
  by (simp add: render_def render_items_strings)

section \<open>What one call of \<^verbatim>\<open>Logger::log\<close> writes\<close>

lemma file_content_upd [simp]:
  "file_content (w\<lparr>files := (files w)(p \<mapsto> c)\<rparr>) q = (if q = p then c else file_content w q)"
  by (simp add: file_content_def)

lemma put_LogFile_twice:
  "put fs LogFile t (put fs LogFile s w) = put fs LogFile (s @ t) w"
  by (cases "open_path fs") simp_all

lemma check_color_written [simp]:
  "check_color (w\<lparr>cerr := c\<rparr>) os = check_color w os"
  "check_color (w\<lparr>cout := c\<rparr>) os = check_color w os"
  "check_color (w\<lparr>files := fls\<rparr>) os = check_color w os"
  by (cases os; simp add: check_color_def)+

lemma check_color_put [simp]: "check_color (put fs os s w) os' = check_color w os'"
  by (cases os; cases "open_path fs") simp_all

lemma check_color_LogFile [simp]: "\<not> check_color w LogFile"
  by (simp add: check_color_def)

lemma getLogStream_cases: "getLogStream lg = Cerr \<or> getLogStream lg = LogFile"
  by (simp add: getLogStream_def)

lemma getLogStream_Cerr_iff:
  "getLogStream lg = Cerr \<longleftrightarrow> output_mode_m lg = Console \<or> \<not> is_open (log_file_m lg)"
  by (cases "output_mode_m lg") (simp_all add: getLogStream_def)

lemma log_try_Cerr:
  assumes "getLogStream lg = Cerr" and "render m = Inr r" and "formatter_m lg L f l r = Inr body"
  shows "log_try lg L f l m w =
           Inr (w\<lparr>cerr := cerr w @ (if check_color w Cerr then decorated_line lg L body
                                      else plain_line L body)\<rparr>)"
proof -
  from assms(1) have no_file: "(output_mode_m lg = Both \<and> is_open (log_file_m lg)) = False"
    by (auto simp: getLogStream_Cerr_iff)
  show ?thesis
    by (simp add: log_try_def Let_def assms no_file applyLogLevelColor_def apply_code_def
        decorated_line_def plain_line_def)
qed

lemma log_try_LogFile:
  assumes "getLogStream lg = LogFile" and "render m = Inr r" and "formatter_m lg L f l r = Inr body"
  shows "log_try lg L f l m w =
           Inr (put (log_file_m lg) LogFile
                  (plain_line L body @ (if output_mode_m lg = Both then plain_line L body else [])) w)"
proof -
  from assms(1) have opened: "is_open (log_file_m lg) = True"
    by (simp add: getLogStream_def split: if_splits)
  show ?thesis
    by (simp add: log_try_def Let_def assms opened put_LogFile_twice plain_line_def del: put.simps)
qed

lemma log_try_emit:
  assumes "render m = Inr r" and "formatter_m lg L f l r = Inr body"
  shows "log_try lg L f l m w = Inr (emit lg L body w)"
proof (cases "getLogStream lg = Cerr")
  case True
  from log_try_Cerr [OF True assms, of w] True show ?thesis
    by (simp add: emit_def)
next
  case False
  with getLogStream_cases [of lg] have stream: "getLogStream lg = LogFile"
    by simp
  from log_try_LogFile [OF stream assms, of w] False show ?thesis
    by (simp add: emit_def del: put.simps)
qed

lemma log_try_render_throws: "render m = Inl t \<Longrightarrow> log_try lg L f l m w = Inl t"
  by (simp add: log_try_def)

lemma log_try_formatter_throws:
  "render m = Inr r \<Longrightarrow> formatter_m lg L f l r = Inl t \<Longrightarrow> log_try lg L f l m w = Inl t"
  by (simp add: log_try_def)

text \<open>
  C10. A \<^verbatim>\<open>std::string\<close> is iterable, so its rendering is the loop over its characters,
  and the loop rebuilds the string. \<^verbatim>\<open>Logger::log\<close> therefore calls the formatter on the
  level, the file, the line and the text itself, and what it does next is decided by
  what the formatter returns for them: the record's line or lines carry the formatted
  text, a \<^verbatim>\<open>std::exception\<close> becomes the diagnostic line, any other object leaves the
  call. A container of the characters of the string, or of strings that concatenate
  to it, or any other container that renders to it, is logged identically.
\<close>

theorem render_string_unchanged:
  "Iterable (StdString s)
   \<and> render (StdString s) = render_items [] (map CharItem s)
   \<and> render (StdString s) = Inr s
   \<and> Logger_log F lg L f l (StdString s) w =
       (if rank L < F then Inr w
        else case formatter_m lg L f l s of
               Inl (StdException e) \<Rightarrow>
                 Inr (put (log_file_m lg) Cerr (''Logging exception: '' @ what e @ endl) w)
             | Inl NonStdThrow \<Rightarrow> Inl NonStdThrow
             | Inr body \<Rightarrow> Inr (emit lg L body w))
   \<and> render (Container (map CharItem s)) = Inr s
   \<and> render (Container (map StringItem ss)) = Inr (concat ss)
   \<and> (render (Container xs) = Inr s \<longrightarrow>
        Logger_log F lg L f l (Container xs) w = Logger_log F lg L f l (StdString s) w)"
proof -
  have branch: "render (StdString s) = render_items [] (map CharItem s)"
    by (simp add: render_def)
  have log_eq: "Logger_log F lg L f l (StdString s) w =
       (if rank L < F then Inr w
        else case formatter_m lg L f l s of
               Inl (StdException e) \<Rightarrow>
                 Inr (put (log_file_m lg) Cerr (''Logging exception: '' @ what e @ endl) w)
             | Inl NonStdThrow \<Rightarrow> Inl NonStdThrow
             | Inr body \<Rightarrow> Inr (emit lg L body w))"
  proof (cases "formatter_m lg L f l s")
    case (Inl t)
    from log_try_formatter_throws [OF render_StdString Inl, of w] Inl show ?thesis
      by (cases t) (simp_all add: Logger_log_def)
  next
    case (Inr body)
    from log_try_emit [OF render_StdString Inr, of w] Inr show ?thesis
      by (simp add: Logger_log_def)
  qed
  have same: "Logger_log F lg L f l (Container xs) w = Logger_log F lg L f l (StdString s) w"
    if "render (Container xs) = Inr s"
  proof -
    from that have "log_try lg L f l (Container xs) w = log_try lg L f l (StdString s) w"
      by (simp add: log_try_def render_StdString)
    then show ?thesis
      by (simp add: Logger_log_def)
  qed
  from branch log_eq same show ?thesis
    by (simp add: render_StdString render_char_Container render_string_Container)
qed

theorem render_string_unchanged_witness:
  "render (Container [StringItem ''ab'', CharItem CHR ''c'']) = Inr ''abc''
   \<and> Logger_log LOG_LEVEL_DEBUG default_logger info ''a.cpp'' 0 (Container [StringItem ''ab'', CharItem CHR ''c'']) world0
       = Logger_log LOG_LEVEL_DEBUG default_logger info ''a.cpp'' 0 (StdString ''abc'') world0"
proof -
  have r: "render (Container [StringItem ''ab'', CharItem CHR ''c'']) = Inr ''abc''"
    by (simp add: render_def)
  with render_string_unchanged [where xs = "[StringItem ''ab'', CharItem CHR ''c'']" and s = "''abc''"
      and F = LOG_LEVEL_DEBUG and lg = default_logger and L = info and f = "''a.cpp''" and l = 0
      and w = world0]
  show ?thesis by blast
qed

section \<open>Facts about the concrete loggers\<close>

lemmas fixture_defs = world0_def terminal_world_def default_logger_def file_logger_def file_world_def
  both_logger_def both_world_def file_config_def both_config_def LoggerConfig_default_def
  Logger_ctor_def ofstream_open_def ofstream_init_def is_open_def LOG_LEVEL_DEBUG_def

lemma default_logger_fields:
  "formatter_m default_logger = default_formatter"
  "getLogStream default_logger = Cerr"
  "log_level_colors_m default_logger = default_colors"
  by (simp_all add: fixture_defs getLogStream_def Let_def)

lemma default_formatter_line0: "default_formatter L f 0 s = Inr s"
  by (simp add: default_formatter_def)

lemma file_logger_fields:
  "formatter_m file_logger = default_formatter"
  "getLogStream file_logger = LogFile"
  "output_mode_m file_logger = File"
  "log_file_m file_logger = \<lparr>open_path = Some ''a.log'', failbit = False\<rparr>"
  by (simp_all add: fixture_defs getLogStream_def Let_def)

lemma both_logger_fields:
  "formatter_m both_logger = default_formatter"
  "getLogStream both_logger = LogFile"
  "output_mode_m both_logger = Both"
  "log_file_m both_logger = \<lparr>open_path = Some ''t.log'', failbit = False\<rparr>"
  by (simp_all add: fixture_defs getLogStream_def Let_def)

lemma both_world_fields:
  "cerr both_world = []" "file_content both_world p = []"
  by (simp_all add: fixture_defs Let_def file_content_def)

section \<open>Level filtering\<close>

text \<open>The only test in \<^verbatim>\<open>Logger::log\<close> is against the compile-time floor: a record
  below it changes nothing, and a call that changes anything has a level at or above
  it.\<close>

lemma log_filters_by_floor:
  "(rank L < F \<longrightarrow> Logger_log F lg L f l m w = Inr w)
   \<and> (Logger_log F lg L f l m w \<noteq> Inr w \<longrightarrow> F \<le> rank L)"
  by (auto simp: Logger_log_def)

lemma log_try_log_level:
  "log_try (lg\<lparr>log_level_m := T\<rparr>) L f l m w = log_try lg L f l m w"
  unfolding log_try_def
  by (simp add: getLogStream_def applyLogLevelColor_def cong: sum.case_cong if_cong)

text \<open>
  C1. The threshold that the constructor and \<^verbatim>\<open>set_log_level\<close> store in \<^verbatim>\<open>log_level_\<close> is
  read nowhere: setting it changes no call of \<^verbatim>\<open>Logger::log\<close>, and a logger whose
  threshold is error, compiled with the default floor, writes a debug record to the
  error stream although debug ranks below error.
\<close>

theorem log_ignores_instance_threshold:
  "rank debug < rank (log_level_m error_threshold_logger)
   \<and> Logger_log LOG_LEVEL_DEBUG error_threshold_logger debug [] 0 (StdString ''hi'') world0
       = Inr (world0\<lparr>cerr := ''[DEBUG] hi'' @ endl\<rparr>)
   \<and> Logger_log F (set_log_level T lg) L f l m w = Logger_log F lg L f l m w"
proof -
  have "Logger_log LOG_LEVEL_DEBUG error_threshold_logger debug [] 0 (StdString ''hi'') world0
       = Inr (world0\<lparr>cerr := ''[DEBUG] hi'' @ endl\<rparr>)"
    by (simp add: Logger_log_def log_try_def LOG_LEVEL_DEBUG_def error_threshold_logger_def
      set_log_level_def default_logger_def Logger_ctor_def render_StdString
      LoggerConfig_default_def default_formatter_def getLogStream_def is_open_def ofstream_init_def
      check_color_def world0_def Let_def)
  moreover have "Logger_log F (set_log_level T lg) L f l m w = Logger_log F lg L f l m w"
    by (simp add: Logger_log_def set_log_level_def log_try_log_level cong: sum.case_cong thrown.case_cong)
  moreover have "rank debug < rank (log_level_m error_threshold_logger)"
    by (simp add: error_threshold_logger_def set_log_level_def)
  ultimately show ?thesis by blast
qed

section \<open>Colour decoration\<close>

lemma decorated_neq_plain: "decorated_line lg L body \<noteq> plain_line L body"
proof
  assume "decorated_line lg L body = plain_line L body"
  then have "length (decorated_line lg L body) = length (plain_line L body)"
    by simp
  then show False
    by (simp add: decorated_line_def plain_line_def)
qed

lemma put_LogFile_content:
  "\<exists>k. (k = 0 \<or> k = 1) \<and> file_content (put fs LogFile s w) p = file_content w p @ concat (replicate k s)"
proof (cases "open_path fs")
  case None
  then have "file_content (put fs LogFile s w) p = file_content w p @ concat (replicate 0 s)"
    by simp
  then show ?thesis by blast
next
  case (Some q)
  show ?thesis
  proof (cases "failbit fs \<or> p \<noteq> q")
    case True
    with Some have "file_content (put fs LogFile s w) p = file_content w p @ concat (replicate 0 s)"
      by auto
    then show ?thesis by blast
  next
    case False
    with Some have "file_content (put fs LogFile s w) p = file_content w p @ concat (replicate 1 s)"
      by simp
    then show ?thesis by blast
  qed
qed

lemma put_LogFile_cerr [simp]: "cerr (put fs LogFile s w) = cerr w"
  by (cases "open_path fs") simp_all

text \<open>
  C6. For an accepted record whose rendering and formatting succeed (the formatter
  is called on the rendered text \<open>r\<close>), the text that reaches the error
  stream is the decorated line when the global colour flag is set and the error stream
  is a terminal, and the plain line otherwise; the two lines differ. Whatever reaches a
  file is made of plain lines only (none, one or two of them).
\<close>

theorem console_decoration_iff:
  assumes "\<not> rank L < F" and "render m = Inr r" and "formatter_m lg L f l r = Inr body"
  shows "\<exists>w'. Logger_log F lg L f l m w = Inr w'
           \<and> decorated_line lg L body \<noteq> plain_line L body
           \<and> (getLogStream lg = Cerr \<longrightarrow>
                (\<exists>T. cerr w' = cerr w @ T
                      \<and> (T = decorated_line lg L body \<or> T = plain_line L body)
                      \<and> (T = decorated_line lg L body \<longleftrightarrow> is_global_colored w \<and> is_stderr_terminal_m w)))
           \<and> (getLogStream lg = LogFile \<longrightarrow> cerr w' = cerr w)
           \<and> (\<forall>p. \<exists>k. k \<le> 2 \<and> file_content w' p = file_content w p @ concat (replicate k (plain_line L body)))"
proof (cases "getLogStream lg = Cerr")
  case True
  let ?T = "if check_color w Cerr then decorated_line lg L body else plain_line L body"
  let ?w = "w\<lparr>cerr := cerr w @ ?T\<rparr>"
  have res: "Logger_log F lg L f l m w = Inr ?w"
    using assms(1) by (simp add: Logger_log_def log_try_Cerr [OF True assms(2,3)])
  have shape: "(?T = decorated_line lg L body \<or> ?T = plain_line L body)
               \<and> (?T = decorated_line lg L body \<longleftrightarrow> is_global_colored w \<and> is_stderr_terminal_m w)"
    using decorated_neq_plain [of lg L body] by (auto simp: check_color_def)
  have "cerr ?w = cerr w @ ?T" by simp
  with shape have console: "\<exists>T. cerr ?w = cerr w @ T
      \<and> (T = decorated_line lg L body \<or> T = plain_line L body)
      \<and> (T = decorated_line lg L body \<longleftrightarrow> is_global_colored w \<and> is_stderr_terminal_m w)"
    by blast
  have "file_content ?w p = file_content w p @ concat (replicate 0 (plain_line L body))" for p
    by (simp add: file_content_def)
  then have filesink: "\<forall>p. \<exists>k. k \<le> 2 \<and> file_content ?w p = file_content w p @ concat (replicate k (plain_line L body))"
    by (metis zero_le)
  have "getLogStream lg \<noteq> LogFile"
    using True by simp
  with res console filesink decorated_neq_plain [of lg L body] show ?thesis
    by blast
next
  case False
  with getLogStream_cases [of lg] have stream: "getLogStream lg = LogFile"
    by simp
  let ?s = "plain_line L body @ (if output_mode_m lg = Both then plain_line L body else [])"
  let ?w = "put (log_file_m lg) LogFile ?s w"
  have res: "Logger_log F lg L f l m w = Inr ?w"
    using assms(1) by (simp add: Logger_log_def log_try_LogFile [OF stream assms(2,3)] del: put.simps)
  have filesink: "\<exists>k. k \<le> 2 \<and> file_content ?w p = file_content w p @ concat (replicate k (plain_line L body))" for p
  proof -
    from put_LogFile_content [of "log_file_m lg" ?s w p]
    obtain k where k: "k = 0 \<or> k = 1"
      and c: "file_content ?w p = file_content w p @ concat (replicate k ?s)"
      by blast
    show ?thesis
    proof (cases "k = 0")
      case True
      with c have "file_content ?w p = file_content w p @ concat (replicate 0 (plain_line L body))"
        by simp
      then show ?thesis by (metis zero_le)
    next
      case False
      with k have k1: "k = 1" by simp
      show ?thesis
      proof (cases "output_mode_m lg = Both")
        case True
        with c k1 have "file_content ?w p = file_content w p @ concat (replicate 2 (plain_line L body))"
          by (simp add: numeral_2_eq_2)
        then show ?thesis by (metis order_refl)
      next
        case False
        with c k1 have "file_content ?w p = file_content w p @ concat (replicate 1 (plain_line L body))"
          by simp
        then show ?thesis by (metis one_le_numeral)
      qed
    qed
  qed
  have "cerr ?w = cerr w" by (rule put_LogFile_cerr)
  with res filesink False decorated_neq_plain [of lg L body] show ?thesis
    by blast
qed

theorem console_decoration_iff_witness:
  "\<not> rank info < LOG_LEVEL_DEBUG
   \<and> render (StdString ''hi'') = Inr ''hi''
   \<and> formatter_m default_logger info [] 0 ''hi'' = Inr ''hi''
   \<and> getLogStream default_logger = Cerr
   \<and> (\<exists>w'. Logger_log LOG_LEVEL_DEBUG default_logger info [] 0 (StdString ''hi'') terminal_world = Inr w'
            \<and> cerr w' = decorated_line default_logger info ''hi'')
   \<and> (\<exists>w'. Logger_log LOG_LEVEL_DEBUG default_logger info [] 0 (StdString ''hi'') world0 = Inr w'
            \<and> cerr w' = plain_line info ''hi'')
   \<and> formatter_m file_logger info [] 0 ''hi'' = Inr ''hi''
   \<and> getLogStream file_logger = LogFile
   \<and> (\<exists>w'. Logger_log LOG_LEVEL_DEBUG file_logger info [] 0 (StdString ''hi'') file_world = Inr w'
            \<and> cerr w' = cerr file_world)"
proof -
  have floor: "\<not> rank info < LOG_LEVEL_DEBUG"
    by (simp add: LOG_LEVEL_DEBUG_def)
  have rend: "render (StdString ''hi'') = Inr ''hi''"
    by (rule render_StdString)
  have fmt: "formatter_m default_logger info [] 0 ''hi'' = Inr ''hi''"
    by (simp add: default_logger_fields default_formatter_line0)
  have fmt': "formatter_m file_logger info [] 0 ''hi'' = Inr ''hi''"
    by (simp add: file_logger_fields default_formatter_line0)
  have stream: "getLogStream default_logger = Cerr" "getLogStream file_logger = LogFile"
    by (simp_all add: default_logger_fields file_logger_fields)
  have env: "is_global_colored terminal_world" "is_stderr_terminal_m terminal_world"
    "cerr terminal_world = []" "\<not> is_stderr_terminal_m world0" "cerr world0 = []"
    by (simp_all add: terminal_world_def world0_def)
  from console_decoration_iff [OF floor rend fmt, of terminal_world] stream env
  have coloured: "\<exists>w'. Logger_log LOG_LEVEL_DEBUG default_logger info [] 0 (StdString ''hi'') terminal_world = Inr w'
            \<and> cerr w' = decorated_line default_logger info ''hi''"
    by auto
  from console_decoration_iff [OF floor rend fmt, of world0] stream env
  have uncoloured: "\<exists>w'. Logger_log LOG_LEVEL_DEBUG default_logger info [] 0 (StdString ''hi'') world0 = Inr w'
            \<and> cerr w' = plain_line info ''hi''"
    by auto
  from console_decoration_iff [OF floor rend fmt', of file_world] stream
  have tofile: "\<exists>w'. Logger_log LOG_LEVEL_DEBUG file_logger info [] 0 (StdString ''hi'') file_world = Inr w'
            \<and> cerr w' = cerr file_world"
    by auto
  from floor rend fmt fmt' stream coloured uncoloured tofile show ?thesis
    by blast
qed

section \<open>Exceptions raised while logging\<close>

lemma log_try_returns:
  "render m = Inr r \<Longrightarrow> formatter_m lg L f l r = Inr body \<Longrightarrow> \<exists>w'. log_try lg L f l m w = Inr w'"
  by (simp add: log_try_emit)

lemma Logger_log_catches:
  "\<not> rank L < F \<Longrightarrow> log_try lg L f l m w = Inl (StdException e) \<Longrightarrow>
   Logger_log F lg L f l m w = Inr (w\<lparr>cerr := cerr w @ ''Logging exception: '' @ what e @ endl\<rparr>)"
  by (simp add: Logger_log_def)

text \<open>
  C5 (as amended). When the rendering of the message and the formatter throw nothing
  but objects derived from \<^verbatim>\<open>std::exception\<close> (writing to the streams throws nothing),
  \<^verbatim>\<open>Logger::log\<close> returns normally. A \<^verbatim>\<open>std::exception\<close> thrown on an accepted record by the
  rendering or by the formatter is caught, and the only effect of the call is the
  line \<^verbatim>\<open>Logging exception: <what>\<close> on the error stream.
\<close>

theorem log_catches_std_exception:
  "(render m \<noteq> Inl NonStdThrow \<and> (\<forall>r. render m = Inr r \<longrightarrow> formatter_m lg L f l r \<noteq> Inl NonStdThrow)
      \<longrightarrow> (\<exists>w'. Logger_log F lg L f l m w = Inr w'))
   \<and> (\<not> rank L < F \<and> render m = Inl (StdException e) \<longrightarrow>
        Logger_log F lg L f l m w = Inr (w\<lparr>cerr := cerr w @ ''Logging exception: '' @ what e @ endl\<rparr>))
   \<and> (\<not> rank L < F \<and> render m = Inr r \<and> formatter_m lg L f l r = Inl (StdException e) \<longrightarrow>
        Logger_log F lg L f l m w = Inr (w\<lparr>cerr := cerr w @ ''Logging exception: '' @ what e @ endl\<rparr>))"
proof (intro conjI impI)
  assume ok: "render m \<noteq> Inl NonStdThrow
              \<and> (\<forall>r. render m = Inr r \<longrightarrow> formatter_m lg L f l r \<noteq> Inl NonStdThrow)"
  have "\<exists>w'. Logger_log F lg L f l m w = Inr w'" if below: "rank L < F"
    using below by (simp add: Logger_log_def)
  moreover have "\<exists>w'. Logger_log F lg L f l m w = Inr w'" if accepted: "\<not> rank L < F"
  proof (cases "render m")
    case (Inl t)
    with ok obtain e' where "t = StdException e'"
      by (cases t) auto
    with Inl have "log_try lg L f l m w = Inl (StdException e')"
      by (simp add: log_try_render_throws)
    from Logger_log_catches [OF accepted this] show ?thesis by blast
  next
    case rendered: (Inr r')
    show ?thesis
    proof (cases "formatter_m lg L f l r'")
      case (Inl t)
      with ok rendered obtain e' where "t = StdException e'"
        by (cases t) auto
      with Inl rendered have "log_try lg L f l m w = Inl (StdException e')"
        by (simp add: log_try_formatter_throws)
      from Logger_log_catches [OF accepted this] show ?thesis by blast
    next
      case (Inr body)
      from log_try_emit [OF rendered Inr, of w] show ?thesis
        by (simp add: Logger_log_def)
    qed
  qed
  ultimately show "\<exists>w'. Logger_log F lg L f l m w = Inr w'"
    by blast
next
  assume a: "\<not> rank L < F \<and> render m = Inl (StdException e)"
  then have "log_try lg L f l m w = Inl (StdException e)"
    by (simp add: log_try_render_throws)
  with a show "Logger_log F lg L f l m w = Inr (w\<lparr>cerr := cerr w @ ''Logging exception: '' @ what e @ endl\<rparr>)"
    by (simp add: Logger_log_catches)
next
  assume a: "\<not> rank L < F \<and> render m = Inr r \<and> formatter_m lg L f l r = Inl (StdException e)"
  then have "log_try lg L f l m w = Inl (StdException e)"
    by (simp add: log_try_formatter_throws)
  with a show "Logger_log F lg L f l m w = Inr (w\<lparr>cerr := cerr w @ ''Logging exception: '' @ what e @ endl\<rparr>)"
    by (simp add: Logger_log_catches)
qed

theorem log_catches_std_exception_witness:
  "\<not> rank info < LOG_LEVEL_DEBUG
   \<and> render throwing_container = Inl (StdException (Exception ''St13runtime_error'' ''bad item''))
   \<and> render throwing_container \<noteq> Inl NonStdThrow
   \<and> (\<exists>w'. Logger_log LOG_LEVEL_DEBUG default_logger info [] 0 throwing_container world0 = Inr w')
   \<and> Logger_log LOG_LEVEL_DEBUG default_logger info [] 0 throwing_container world0
       = Inr (world0\<lparr>cerr := cerr world0 @ ''Logging exception: '' @ ''bad item'' @ endl\<rparr>)
   \<and> render (StdString ''hi'') = Inr ''hi''
   \<and> formatter_m (set_formatter runtime_error_formatter default_logger) info [] 0 ''hi''
       = Inl (StdException (Exception ''St13runtime_error'' ''bad format''))
   \<and> Logger_log LOG_LEVEL_DEBUG (set_formatter runtime_error_formatter default_logger) info [] 0
        (StdString ''hi'') world0
       = Inr (world0\<lparr>cerr := cerr world0 @ ''Logging exception: '' @ ''bad format'' @ endl\<rparr>)"
proof -
  let ?lg = "set_formatter runtime_error_formatter default_logger"
  let ?item = "Exception ''St13runtime_error'' ''bad item''"
  let ?fmt = "Exception ''St13runtime_error'' ''bad format''"
  have floor: "\<not> rank info < LOG_LEVEL_DEBUG"
    by (simp add: LOG_LEVEL_DEBUG_def)
  have thrown: "render throwing_container = Inl (StdException ?item)"
    by (simp add: throwing_container_def render_def)
  then have std: "render throwing_container \<noteq> Inl NonStdThrow"
    and none: "\<forall>r. render throwing_container = Inr r \<longrightarrow> formatter_m default_logger info [] 0 r \<noteq> Inl NonStdThrow"
    by simp_all
  have rend: "render (StdString ''hi'') = Inr ''hi''"
    by (rule render_StdString)
  have fmt: "formatter_m ?lg info [] 0 ''hi'' = Inl (StdException ?fmt)"
    by (simp add: set_formatter_def runtime_error_formatter_def)
  note rendering = log_catches_std_exception [where lg = default_logger and L = info and f = "[]"
      and l = 0 and m = throwing_container and F = LOG_LEVEL_DEBUG and w = world0 and e = ?item]
  note formatting = log_catches_std_exception [where lg = ?lg and L = info and f = "[]" and l = 0
      and m = "StdString ''hi''" and F = LOG_LEVEL_DEBUG and w = world0 and e = ?fmt and r = "''hi''"]
  from rendering floor thrown std none
  have a: "\<exists>w'. Logger_log LOG_LEVEL_DEBUG default_logger info [] 0 throwing_container world0 = Inr w'"
    and b: "Logger_log LOG_LEVEL_DEBUG default_logger info [] 0 throwing_container world0
       = Inr (world0\<lparr>cerr := cerr world0 @ ''Logging exception: '' @ ''bad item'' @ endl\<rparr>)"
    by simp_all
  from formatting floor rend fmt
  have c: "Logger_log LOG_LEVEL_DEBUG ?lg info [] 0 (StdString ''hi'') world0
       = Inr (world0\<lparr>cerr := cerr world0 @ ''Logging exception: '' @ ''bad format'' @ endl\<rparr>)"
    by simp
  from floor thrown std a b rend fmt c show ?thesis
    by blast
qed

text \<open>The claim as written covers every formatter and every message: a formatter
  that throws an \<^verbatim>\<open>int\<close> makes the call end with that exception, and so does a message
  whose \<^verbatim>\<open>operator<<\<close> throws one.\<close>

theorem non_std_exception_counterexample:
  "Logger_log LOG_LEVEL_DEBUG (set_formatter int_throwing_formatter default_logger) info [] 0
     (StdString ''hi'') world0 = Inl NonStdThrow
   \<and> Logger_log LOG_LEVEL_DEBUG default_logger info [] 0 (UserPrintable (Inl NonStdThrow)) world0
       = Inl NonStdThrow"
  by (simp add: Logger_log_def log_try_def render_StdString render_def set_formatter_def
      int_throwing_formatter_def LOG_LEVEL_DEBUG_def)

section \<open>Error handlers\<close>

lemma log_stack_trace_any_logger: "log_stack_trace lg w = log_stack_trace lg' w"
  by (simp add: log_stack_trace_def)

lemma getLogStream_upd [simp]:
  "getLogStream (lg\<lparr>default_handler_m := d\<rparr>) = getLogStream lg"
  "getLogStream (lg\<lparr>handlers_m := hs\<rparr>) = getLogStream lg"
  by (simp_all add: getLogStream_def)

lemma applyLogLevelColor_upd [simp]:
  "applyLogLevelColor (lg\<lparr>default_handler_m := d\<rparr>) = applyLogLevelColor lg"
  "applyLogLevelColor (lg\<lparr>handlers_m := hs\<rparr>) = applyLogLevelColor lg"
  by (simp_all add: applyLogLevelColor_def fun_eq_iff)

lemma log_try_default_handler:
  "log_try (lg\<lparr>default_handler_m := d\<rparr>) L f l m w = log_try lg L f l m w"
  unfolding log_try_def by (simp cong: sum.case_cong if_cong)

lemma log_try_handlers:
  "log_try (lg\<lparr>handlers_m := hs\<rparr>) L f l m w = log_try lg L f l m w"
  unfolding log_try_def by (simp cong: sum.case_cong if_cong)

lemma Logger_log_default_handler [simp]:
  "Logger_log F (lg\<lparr>default_handler_m := d\<rparr>) L f l m w = Logger_log F lg L f l m w"
  by (simp add: Logger_log_def log_try_default_handler cong: sum.case_cong thrown.case_cong)

lemma Logger_log_handlers [simp]:
  "Logger_log F (lg\<lparr>handlers_m := hs\<rparr>) L f l m w = Logger_log F lg L f l m w"
  by (simp add: Logger_log_def log_try_handlers cong: sum.case_cong thrown.case_cong)

text \<open>
  C7 (as amended). Unless the formatter throws an object that is not a
  \<^verbatim>\<open>std::exception\<close>, the call that writes the error line returns. When it has returned,
  and after the stack trace, \<^verbatim>\<open>handle_error\<close> runs the handler
  registered under \<^verbatim>\<open>typeid(e).name()\<close> on \<open>e\<close>, and then the default handler plays no
  part; with no such handler it runs the default handler on \<open>e\<close>. Of two handlers
  registered under one key the second is the one that runs. The default handler of a
  newly constructed logger writes \<^verbatim>\<open>Unhandled exception: <what>\<close> to the error stream.
\<close>

theorem handle_error_dispatch:
  "(Logger_error F lg ctx 0 (CString (what e)) w = Inr w1 \<and> handlers_m lg (type_name e) = Some h \<longrightarrow>
      handle_error F lg e ctx w = h e (log_stack_trace lg w1)
      \<and> handle_error F (set_default_error_handler d lg) e ctx w = h e (log_stack_trace lg w1))
   \<and> (Logger_error F lg ctx 0 (CString (what e)) w = Inr w1 \<and> handlers_m lg (type_name e) = None \<longrightarrow>
      handle_error F lg e ctx w = default_handler_m lg e (log_stack_trace lg w1)
      \<and> handle_error F (set_default_error_handler d lg) e ctx w = d e (log_stack_trace lg w1))
   \<and> (Logger_error F lg ctx 0 (CString (what e)) w = Inr w1 \<longrightarrow>
      handle_error F (register_error_handler (type_name e) h2 (register_error_handler (type_name e) h1 lg)) e ctx w
        = h2 e (log_stack_trace lg w1))
   \<and> default_handler_m (fst (Logger_ctor config w0)) e w
       = Inr (w\<lparr>cerr := cerr w @ ''Unhandled exception: '' @ what e @ endl\<rparr>)
   \<and> (formatter_m lg error ctx 0 (what e) \<noteq> Inl NonStdThrow \<longrightarrow>
        (\<exists>w1. Logger_error F lg ctx 0 (CString (what e)) w = Inr w1))"
proof -
  have returns: "\<exists>w1. Logger_error F lg ctx 0 (CString (what e)) w = Inr w1"
    if ok: "formatter_m lg error ctx 0 (what e) \<noteq> Inl NonStdThrow"
  proof (cases "rank error < F")
    case True
    then show ?thesis
      by (simp add: Logger_error_def Logger_log_def)
  next
    case accepted: False
    show ?thesis
    proof (cases "formatter_m lg error ctx 0 (what e)")
      case (Inl t)
      with ok obtain e' where "t = StdException e'"
        by (cases t) auto
      with Inl have "log_try lg error ctx 0 (CString (what e)) w = Inl (StdException e')"
        by (simp add: log_try_formatter_throws [OF render_CString])
      from Logger_log_catches [OF accepted this] show ?thesis
        by (simp add: Logger_error_def)
    next
      case (Inr body)
      from log_try_emit [OF render_CString Inr, of w] show ?thesis
        by (simp add: Logger_error_def Logger_log_def)
    qed
  qed
  have trace_d: "log_stack_trace (lg\<lparr>default_handler_m := d\<rparr>) w1 = log_stack_trace lg w1"
    by (rule log_stack_trace_any_logger)
  have trace_h: "log_stack_trace (lg\<lparr>handlers_m := hs\<rparr>) w1 = log_stack_trace lg w1" for hs
    by (rule log_stack_trace_any_logger)
  have ctor: "default_handler_m (fst (Logger_ctor config w0)) = unhandled_exception_handler"
    by (simp add: Logger_ctor_def Let_def split: prod.splits)
  have registered: "Logger_error F lg ctx 0 (CString (what e)) w = Inr w1 \<Longrightarrow>
      handlers_m lg (type_name e) = Some h \<Longrightarrow>
      handle_error F lg e ctx w = h e (log_stack_trace lg w1)
      \<and> handle_error F (set_default_error_handler d lg) e ctx w = h e (log_stack_trace lg w1)"
    by (simp add: handle_error_def Logger_error_def set_default_error_handler_def trace_d Let_def)
  have unregistered: "Logger_error F lg ctx 0 (CString (what e)) w = Inr w1 \<Longrightarrow>
      handlers_m lg (type_name e) = None \<Longrightarrow>
      handle_error F lg e ctx w = default_handler_m lg e (log_stack_trace lg w1)
      \<and> handle_error F (set_default_error_handler d lg) e ctx w = d e (log_stack_trace lg w1)"
    by (simp add: handle_error_def Logger_error_def set_default_error_handler_def trace_d Let_def)
  have last_wins: "Logger_error F lg ctx 0 (CString (what e)) w = Inr w1 \<Longrightarrow>
      handle_error F (register_error_handler (type_name e) h2 (register_error_handler (type_name e) h1 lg)) e ctx w
        = h2 e (log_stack_trace lg w1)"
    by (simp add: handle_error_def Logger_error_def register_error_handler_def trace_h Let_def)
  have unhandled: "default_handler_m (fst (Logger_ctor config w0)) e w
       = Inr (w\<lparr>cerr := cerr w @ ''Unhandled exception: '' @ what e @ endl\<rparr>)"
    by (simp add: ctor unhandled_exception_handler_def)
  from registered unregistered last_wins unhandled returns show ?thesis
    by blast
qed

theorem handle_error_dispatch_witness:
  "formatter_m default_logger error ''ctx'' 0 (what boom) \<noteq> Inl NonStdThrow
   \<and> Logger_error LOG_LEVEL_DEBUG default_logger ''ctx'' 0 (CString (what boom)) world0
     = Inr (world0\<lparr>cerr := ''[ERROR] boom'' @ endl\<rparr>)
   \<and> handlers_m default_logger (type_name boom) = None
   \<and> handlers_m (register_error_handler ''St13runtime_error'' custom_error_handler default_logger)
       (type_name boom) = Some custom_error_handler
   \<and> handle_error LOG_LEVEL_DEBUG default_logger boom ''ctx'' world0
       = default_handler_m default_logger boom
           (log_stack_trace default_logger (world0\<lparr>cerr := ''[ERROR] boom'' @ endl\<rparr>))
   \<and> handle_error LOG_LEVEL_DEBUG
        (register_error_handler ''St13runtime_error'' custom_error_handler default_logger) boom ''ctx'' world0
       = custom_error_handler boom
           (log_stack_trace default_logger (world0\<lparr>cerr := ''[ERROR] boom'' @ endl\<rparr>))"
proof -
  let ?w1 = "world0\<lparr>cerr := ''[ERROR] boom'' @ endl\<rparr>"
  let ?lg = "register_error_handler ''St13runtime_error'' custom_error_handler default_logger"
  have logged: "Logger_error LOG_LEVEL_DEBUG default_logger ''ctx'' 0 (CString (what boom)) world0 = Inr ?w1"
    by (simp add: Logger_error_def Logger_log_def log_try_def LOG_LEVEL_DEBUG_def default_logger_def
        Logger_ctor_def LoggerConfig_default_def default_formatter_def getLogStream_def is_open_def
        ofstream_init_def check_color_def world0_def boom_def render_def Let_def)
  then have logged': "Logger_error LOG_LEVEL_DEBUG ?lg ''ctx'' 0 (CString (what boom)) world0 = Inr ?w1"
    by (simp add: Logger_error_def register_error_handler_def)
  have none: "handlers_m default_logger (type_name boom) = None"
    by (simp add: default_logger_def Logger_ctor_def LoggerConfig_default_def Let_def)
  have some: "handlers_m ?lg (type_name boom) = Some custom_error_handler"
    by (simp add: register_error_handler_def boom_def)
  have trace: "log_stack_trace ?lg ?w1 = log_stack_trace default_logger ?w1"
    by (rule log_stack_trace_any_logger)
  from handle_error_dispatch [where F = LOG_LEVEL_DEBUG and lg = default_logger and ctx = "''ctx''"
      and e = boom and w = world0 and ?w1.0 = ?w1]
    handle_error_dispatch [where F = LOG_LEVEL_DEBUG and lg = ?lg and ctx = "''ctx''"
      and e = boom and w = world0 and ?w1.0 = ?w1 and h = custom_error_handler]
    logged logged' none some trace
  have "formatter_m default_logger error ''ctx'' 0 (what boom) \<noteq> Inl NonStdThrow
      \<and> handle_error LOG_LEVEL_DEBUG default_logger boom ''ctx'' world0
          = default_handler_m default_logger boom (log_stack_trace default_logger ?w1)
      \<and> handle_error LOG_LEVEL_DEBUG ?lg boom ''ctx'' world0
          = custom_error_handler boom (log_stack_trace default_logger ?w1)"
    by (simp add: default_logger_fields default_formatter_line0)
  with logged none some show ?thesis by simp
qed

text \<open>The claim as written covers every logger: when the formatter throws an \<^verbatim>\<open>int\<close>,
  \<^verbatim>\<open>handle_error\<close> ends with that exception before the lookup, and neither the handler
  registered for the exception's type nor the default handler runs.\<close>

theorem handler_not_reached_counterexample:
  "handlers_m handled_int_throwing_logger (type_name boom) = Some custom_error_handler
   \<and> handle_error LOG_LEVEL_DEBUG handled_int_throwing_logger boom ''ctx'' world0 = Inl NonStdThrow
   \<and> handlers_m int_throwing_logger (type_name boom) = None
   \<and> handle_error LOG_LEVEL_DEBUG int_throwing_logger boom ''ctx'' world0 = Inl NonStdThrow"
  by (simp add: handled_int_throwing_logger_def int_throwing_logger_def register_error_handler_def
      set_formatter_def boom_def handle_error_def Logger_error_def Logger_log_def log_try_def
      render_CString int_throwing_formatter_def LOG_LEVEL_DEBUG_def default_logger_def
      Logger_ctor_def LoggerConfig_default_def Let_def)

section \<open>Destinations of a record\<close>

text \<open>In Console mode, and in File mode when the file is not open, an accepted
  record is one line on the error stream; in File mode with the file open it is one
  plain line on the file stream.\<close>

lemma log_Console_or_File_mode:
  assumes "\<not> rank L < F" and "render m = Inr r" and "formatter_m lg L f l r = Inr body"
    and "output_mode_m lg \<noteq> Both"
  shows "Logger_log F lg L f l m w =
           Inr (if output_mode_m lg = File \<and> is_open (log_file_m lg)
                then put (log_file_m lg) LogFile (plain_line L body) w
                else w\<lparr>cerr := cerr w @ (if check_color w Cerr then decorated_line lg L body
                                           else plain_line L body)\<rparr>)"
proof (cases "output_mode_m lg = File \<and> is_open (log_file_m lg)")
  case True
  then have c: "(output_mode_m lg = File \<and> is_open (log_file_m lg)) = True"
    by simp
  from True have "getLogStream lg = LogFile"
    by (simp add: getLogStream_def)
  from log_try_LogFile [OF this assms(2,3), of w] assms(1,4) show ?thesis
    unfolding c by (simp add: Logger_log_def del: put.simps)
next
  case False
  then have c: "(output_mode_m lg = File \<and> is_open (log_file_m lg)) = False"
    by simp
  from False assms(4) have "getLogStream lg = Cerr"
    by (simp add: getLogStream_def)
  from log_try_Cerr [OF this assms(2,3), of w] assms(1) show ?thesis
    unfolding c by (simp add: Logger_log_def)
qed

text \<open>
  C2. The claim holds in Console mode and in File mode (lemma
  \<open>log_Console_or_File_mode\<close>). In Both mode with the file open,
  \<^verbatim>\<open>getLogStream\<close> returns the file stream, so the first write of \<^verbatim>\<open>Logger::log\<close> goes to
  the file and its second write, guarded by
  \<^verbatim>\<open>output_mode_ == OutputMode::Both && log_file_.is_open()\<close>, goes to the file again:
  the error stream receives nothing and the file receives the plain line twice.
\<close>

theorem Both_mode_writes_file_twice:
  "output_mode_m both_logger = Both \<and> is_open (log_file_m both_logger)
   \<and> (case Logger_log LOG_LEVEL_DEBUG both_logger info [] 0 (StdString ''hi'') both_world of
        Inl t \<Rightarrow> False
      | Inr w' \<Rightarrow> cerr w' = [] \<and> files w' ''t.log'' = Some (plain_line info ''hi'' @ plain_line info ''hi''))"
proof -
  have fmt: "formatter_m both_logger info [] 0 ''hi'' = Inr ''hi''"
    by (simp add: both_logger_fields default_formatter_line0)
  have "log_try both_logger info [] 0 (StdString ''hi'') both_world
          = Inr (put (log_file_m both_logger) LogFile (plain_line info ''hi'' @ plain_line info ''hi'') both_world)"
    using log_try_LogFile [OF both_logger_fields(2) render_StdString fmt, of both_world]
    by (simp add: both_logger_fields del: put.simps)
  then show ?thesis
    by (simp add: Logger_log_def LOG_LEVEL_DEBUG_def both_logger_fields both_world_fields is_open_def)
qed

section \<open>The context of \<^verbatim>\<open>handle_error\<close>\<close>

text \<open>
  C4. \<^verbatim>\<open>handle_error\<close> hands the context to \<^verbatim>\<open>error\<close> as the file name together with
  line \<open>0\<close>, and the default formatter prints the file name only when the line is
  positive. With the default formatter the output for \<^verbatim>\<open>std::runtime_error("boom")\<close> and
  context \<^verbatim>\<open>ctx\<close> is the error line with the message, the stack trace header and the
  default handler's line; it is the same for every context.
\<close>

theorem handle_error_omits_context:
  "handle_error LOG_LEVEL_DEBUG default_logger boom ''ctx'' world0
     = Inr (world0\<lparr>cerr := ''[ERROR] boom'' @ endl @ ''Stack trace:'' @ endl
                              @ ''Unhandled exception: boom'' @ endl\<rparr>)
   \<and> handle_error F default_logger e ctx w = handle_error F default_logger e [] w"
proof -
  have "log_try default_logger error ctx 0 (CString (what e)) w
          = log_try default_logger error [] 0 (CString (what e)) w"
    by (simp add: log_try_def render_CString default_logger_fields default_formatter_line0)
  then have indep: "handle_error F default_logger e ctx w = handle_error F default_logger e [] w"
    by (simp add: handle_error_def Logger_error_def Logger_log_def)
  have "handle_error LOG_LEVEL_DEBUG default_logger boom ''ctx'' world0
     = Inr (world0\<lparr>cerr := ''[ERROR] boom'' @ endl @ ''Stack trace:'' @ endl
                              @ ''Unhandled exception: boom'' @ endl\<rparr>)"
    by (simp add: handle_error_def Logger_error_def Logger_log_def log_try_def fixture_defs
        default_formatter_def getLogStream_def check_color_def boom_def render_def Let_def
        log_stack_trace_def unhandled_exception_handler_def)
  with indep show ?thesis by blast
qed

section \<open>Opening a second log file\<close>

text \<open>
  C8. \<^verbatim>\<open>set_log_file\<close> calls \<^verbatim>\<open>open\<close> on a stream that is already open: the call fails,
  the stream stays on the first file and has \<^verbatim>\<open>failbit\<close> set. With the new path
  \<^verbatim>\<open>b.log\<close> no file of that name comes into being; with the old path \<^verbatim>\<open>a.log\<close> the
  earlier content is neither truncated nor doubled; and in both cases the record
  logged afterwards reaches no sink at all.
\<close>

theorem reopen_loses_records:
  "(case reopen_scenario ''b.log'' of
      (lg, Inl t) \<Rightarrow> False
    | (lg, Inr w) \<Rightarrow> open_path (log_file_m lg) = Some ''a.log'' \<and> failbit (log_file_m lg)
                      \<and> files w ''a.log'' = Some (plain_line info ''first'')
                      \<and> files w ''b.log'' = None \<and> cerr w = [])
   \<and> (case reopen_scenario ''a.log'' of
      (lg, Inl t) \<Rightarrow> False
    | (lg, Inr w) \<Rightarrow> open_path (log_file_m lg) = Some ''a.log'' \<and> failbit (log_file_m lg)
                      \<and> files w ''a.log'' = Some (plain_line info ''first'') \<and> cerr w = [])"
  by (simp add: reopen_scenario_def set_log_file_def Logger_log_def log_try_def fixture_defs
      default_formatter_def getLogStream_def check_color_def render_StdString Let_def
      plain_line_def file_content_def)

section \<open>The asynchronous queue\<close>


















end
